theory Spec2Isabelle
  imports Complex_Main
begin

section \<open>JavaScript values and strings\<close>

text \<open>
  The controller of \<^verbatim>\<open>src/frontend/app.js\<close> (class \<^verbatim>\<open>HelperGPT\<close>) keeps its session in
  plain object fields and receives parsed JSON from the backend. A value of that kind is
  a \<open>jsval\<close>. A number is the (finite) value of the double; an object is the list of its
  own properties in source order, a later duplicate key overriding an earlier one as
  \<^verbatim>\<open>JSON.parse\<close> does.

  A JavaScript string is a sequence of UTF-16 code units. The embedding uses \<open>string\<close>
  and reads a \<open>char\<close> as the code unit of the same number, so it covers the strings whose
  code units are below 256 (Latin-1); \<open>length\<close> is then \<^verbatim>\<open>.length\<close>.
\<close>

datatype jsval =
    JUndefined
  | JNull
  | JBool bool
  | JNum rat
  | JStr string
  | JArr "jsval list"
  | JObj "(string \<times> jsval) list"

datatype error = TypeError | ApiError | FetchFailed | SyntaxError

text \<open>Truthiness, as \<^verbatim>\<open>if (v)\<close>, \<^verbatim>\<open>!v\<close> and \<^verbatim>\<open>a || b\<close> test it.\<close>

fun truthy :: "jsval \<Rightarrow> bool" where
  "truthy JUndefined = False"
| "truthy JNull = False"
| "truthy (JBool b) = b"
| "truthy (JNum r) = (r \<noteq> 0)"
| "truthy (JStr s) = (s \<noteq> [])"
| "truthy (JArr xs) = True"
| "truthy (JObj kvs) = True"

text \<open>
  Property read \<^verbatim>\<open>v.k\<close>: a TypeError on \<^verbatim>\<open>undefined\<close> and \<^verbatim>\<open>null\<close>, the own property
  of an object, and \<^verbatim>\<open>undefined\<close> otherwise (none of the property names the controller
  reads is defined on a primitive or an array). \<^verbatim>\<open>v?.k\<close> is the optional chaining.
\<close>

definition nullish :: "jsval \<Rightarrow> bool" where
  "nullish v = (v = JUndefined \<or> v = JNull)"

fun field :: "jsval \<Rightarrow> string \<Rightarrow> jsval" where
  "field (JObj kvs) k = (case map_of (rev kvs) k of None \<Rightarrow> JUndefined | Some v \<Rightarrow> v)"
| "field v k = JUndefined"

definition getProp :: "jsval \<Rightarrow> string \<Rightarrow> error + jsval" where
  "getProp v k = (if nullish v then Inl TypeError else Inr (field v k))"

definition optProp :: "jsval \<Rightarrow> string \<Rightarrow> jsval" where
  "optProp v k = (if nullish v then JUndefined else field v k)"

text \<open>\<^verbatim>\<open>v[i]\<close> for a digit \<open>i\<close>, on a value that is neither \<^verbatim>\<open>undefined\<close> nor \<^verbatim>\<open>null\<close>.\<close>

fun at_index :: "jsval \<Rightarrow> nat \<Rightarrow> jsval" where
  "at_index (JArr xs) i = (if i < length xs then xs ! i else JUndefined)"
| "at_index (JStr cs) i = (if i < length cs then JStr [cs ! i] else JUndefined)"
| "at_index (JObj kvs) i = field (JObj kvs) [char_of (48 + i)]"
| "at_index v i = JUndefined"

text \<open>\<^verbatim>\<open>a || b\<close> on two values already read.\<close>

definition or_else :: "jsval \<Rightarrow> jsval \<Rightarrow> jsval" where
  "or_else a b = (if truthy a then a else b)"

text \<open>\<^verbatim>\<open>String.prototype.trim\<close>: white space and line terminators below code unit 256.\<close>

definition is_space :: "char \<Rightarrow> bool" where
  "is_space c = (let n = (of_char c :: nat) in (9 \<le> n \<and> n \<le> 13) \<or> n = 32 \<or> n = 160)"

definition trim :: "string \<Rightarrow> string" where
  "trim s = rev (dropWhile is_space (rev (dropWhile is_space s)))"

text \<open>
  \<^verbatim>\<open>String.prototype.toLowerCase\<close> below code unit 256: \<^verbatim>\<open>A\<close>..\<^verbatim>\<open>Z\<close> and the Latin-1
  capitals U+00C0..U+00DE (without the multiplication sign U+00D7) move up by 32.
\<close>

definition lower_char :: "char \<Rightarrow> char" where
  "lower_char c =
     (let n = (of_char c :: nat)
      in if (65 \<le> n \<and> n \<le> 90) \<or> (192 \<le> n \<and> n \<le> 222 \<and> n \<noteq> 215)
         then char_of (n + 32) else c)"

definition toLowerCase :: "string \<Rightarrow> string" where
  "toLowerCase s = map lower_char s"

text \<open>
  \<^verbatim>\<open>s.split(sep)\<close> for a one-character separator: the pieces between the separators,
  never an empty array (\<^verbatim>\<open>''.split('.')\<close> is \<^verbatim>\<open>['']\<close>).
\<close>

fun split_on :: "char \<Rightarrow> string \<Rightarrow> string list" where
  "split_on sep [] = [[]]"
| "split_on sep (c # cs) =
     (if c = sep then [] # split_on sep cs
      else (case split_on sep cs of
              [] \<Rightarrow> [[c]]
            | piece # pieces \<Rightarrow> (c # piece) # pieces))"

section \<open>Files and the extension allow-list\<close>

record jsfile =
  name :: string
  fsize :: nat

text \<open>
  \<^verbatim>\<open>isValidFile(file)\<close>: \<^verbatim>\<open>'.' + file.name.split('.').pop().toLowerCase()\<close> must be in
  \<^verbatim>\<open>validTypes\<close>. \<^verbatim>\<open>pop\<close> takes the last piece; \<open>split_on\<close> never returns \<open>[]\<close>.
\<close>

definition validTypes :: "string list" where
  "validTypes = [''.txt'', ''.pdf'', ''.doc'', ''.docx'']"

definition fileExtension :: "jsfile \<Rightarrow> string" where
  "fileExtension f = ''.'' @ toLowerCase (last (split_on CHR ''.'' (name f)))"

definition isValidFile :: "jsfile \<Rightarrow> bool" where
  "isValidFile f = (fileExtension f \<in> set validTypes)"

text \<open>
  Case-insensitive comparison of two extensions, letter by letter: equal characters, or
  an ASCII capital against its small letter.
\<close>

definition is_ascii_upper :: "char \<Rightarrow> bool" where
  "is_ascii_upper c = (65 \<le> (of_char c :: nat) \<and> (of_char c :: nat) \<le> 90)"

definition same_letter :: "char \<Rightarrow> char \<Rightarrow> bool" where
  "same_letter c d =
     (c = d \<or> (is_ascii_upper c \<and> (of_char d :: nat) = of_char c + 32)
            \<or> (is_ascii_upper d \<and> (of_char c :: nat) = of_char d + 32))"

definition same_ignoring_case :: "string \<Rightarrow> string \<Rightarrow> bool" where
  "same_ignoring_case s t = list_all2 same_letter s t"


section \<open>The page, the network and the controller's state\<close>

text \<open>
  \<^verbatim>\<open>document.getElementById(id)\<close> is a lookup in \<open>page\<close>; an absent element is
  \<open>None\<close>, which is what the source's \<^verbatim>\<open>if (el)\<close> guards test. Of an element the
  embedding keeps the \<^verbatim>\<open>hidden\<close> class, \<^verbatim>\<open>style.display\<close>, \<^verbatim>\<open>value\<close>, \<^verbatim>\<open>files\<close> and
  the children the controller appends.
\<close>

datatype node =
    FileItem jsfile
  | HistoryItem string
  | DocItem jsval jsval jsval
  | ResultItem string jsval "jsval list" jsval

record element =
  hidden :: bool
  display :: string
  val :: string
  files :: "jsfile list"
  children :: "node list"

text \<open>
  A request is the endpoint appended to \<^verbatim>\<open>API_BASE\<close>, the method, the headers and the
  body. \<open>DocumentById i\<close> is \<^verbatim>\<open>/documents/${i}\<close> and \<open>DocumentDownload i\<close> is
  \<^verbatim>\<open>/documents/${i}/download\<close>; \<open>Bearer t\<close> is the header value \<^verbatim>\<open>`Bearer ${t}`\<close>.
\<close>

datatype endpoint =
    AuthLogin
  | Documents
  | DocumentsUpload
  | DocumentById jsval
  | DocumentDownload jsval
  | Ask

datatype hval = Plain string | Bearer jsval

datatype part = Field string | FilePart jsfile

datatype body = NoBody | JsonBody jsval | FormBody "(string \<times> part) list"

record request =
  endpoint :: endpoint
  http_method :: string
  headers :: "(string \<times> hval) list"
  body :: body

text \<open>
  A handler that awaits the network is a function of the outcomes of its awaits: it is
  given what each \<^verbatim>\<open>await\<close> resumes with and runs to its end, as one step of the page's
  single thread.

  What \<^verbatim>\<open>await fetch(...)\<close> resumes with: a rejected promise, or a response with its
  \<^verbatim>\<open>ok\<close> flag and the value \<^verbatim>\<open>response.json()\<close> parses (\<open>None\<close> when the body is not
  JSON and \<^verbatim>\<open>json()\<close> throws).
\<close>

datatype fetch_outcome = Rejected | Responded bool "jsval option"

text \<open>
  Everything the controller does to the outside, in the order it does it: a notification
  appended to the body (message and type), a request handed to \<^verbatim>\<open>fetch\<close>, a
  \<^verbatim>\<open>confirm\<close> dialog, a \<^verbatim>\<open>window.open\<close>.
\<close>

datatype effect =
    Notification string string
  | Fetch request
  | Confirm string
  | WindowOpen endpoint

record state =
  isLoggedIn :: bool
  currentUser :: jsval
  authToken :: jsval
  chatHistory :: "string list"
  uploadedDocuments :: jsval
  page :: "string \<rightharpoonup> element"
  effects :: "effect list"

fun notice_of :: "effect \<Rightarrow> (string \<times> string) list" where
  "notice_of (Notification message kind) = [(message, kind)]"
| "notice_of e = []"

fun request_of :: "effect \<Rightarrow> request list" where
  "request_of (Fetch r) = [r]"
| "request_of e = []"

definition notices :: "state \<Rightarrow> (string \<times> string) list" where
  "notices s = concat (map notice_of (effects s))"

definition requests :: "state \<Rightarrow> request list" where
  "requests s = concat (map request_of (effects s))"

definition emit :: "effect \<Rightarrow> state \<Rightarrow> state" where
  "emit e s = s\<lparr>effects := effects s @ [e]\<rparr>"

definition showNotification :: "string \<Rightarrow> string \<Rightarrow> state \<Rightarrow> state" where
  "showNotification message kind s = emit (Notification message kind) s"

text \<open>\<^verbatim>\<open>const el = document.getElementById(i); if (el) { ... }\<close>\<close>

definition with_element :: "string \<Rightarrow> (element \<Rightarrow> element) \<Rightarrow> state \<Rightarrow> state" where
  "with_element i f s =
     (case page s i of None \<Rightarrow> s | Some el \<Rightarrow> s\<lparr>page := (page s)(i \<mapsto> f el)\<rparr>)"

text \<open>\<^verbatim>\<open>el.classList.add('hidden'); el.style.display = 'none'\<close> and its opposite.\<close>

definition conceal :: "element \<Rightarrow> element" where
  "conceal el = el\<lparr>hidden := True, display := ''none''\<rparr>"

definition reveal :: "string \<Rightarrow> element \<Rightarrow> element" where
  "reveal d el = el\<lparr>hidden := False, display := d\<rparr>"

definition updateAuthButtons :: "state \<Rightarrow> state" where
  "updateAuthButtons s =
     (if isLoggedIn s
      then with_element ''logoutBtn'' (reveal ''inline-flex'')
             (with_element ''adminLoginBtn'' conceal s)
      else with_element ''logoutBtn'' conceal
             (with_element ''adminLoginBtn'' (reveal ''inline-flex'') s))"

definition forceMainViewVisible :: "state \<Rightarrow> state" where
  "forceMainViewVisible s =
     (let s1 = fold (\<lambda>i. with_element i conceal)
                 [''loginModal'', ''uploadProgressModal'', ''processingOverlay''] s;
          s2 = with_element ''mainView'' (reveal ''block'') s1;
          s3 = with_element ''adminPanel'' conceal s2
      in updateAuthButtons s3)"

text \<open>
  The constructor's assignments followed by \<^verbatim>\<open>forceMainViewVisible\<close>, on a page \<open>pg\<close>.
  The start-up probes of \<^verbatim>\<open>/health\<close> and \<^verbatim>\<open>/teams\<close> and the team and project option
  lists are not part of the embedding.
\<close>

definition HelperGPT :: "(string \<rightharpoonup> element) \<Rightarrow> state" where
  "HelperGPT pg =
     forceMainViewVisible
       \<lparr>isLoggedIn = False, currentUser = JNull, authToken = JNull, chatHistory = [],
        uploadedDocuments = JArr [], page = pg, effects = []\<rparr>"

text \<open>
  \<^verbatim>\<open>makeAPICall(endpoint, options)\<close>: the request leaves with the JSON content type and,
  when \<^verbatim>\<open>authToken\<close> is truthy, the bearer header; a rejected fetch, a response
  that is not \<^verbatim>\<open>ok\<close> and an unparsable body all end in a throw.
\<close>

definition apiRequest :: "endpoint \<Rightarrow> string \<Rightarrow> body \<Rightarrow> state \<Rightarrow> request" where
  "apiRequest ep m b s =
     \<lparr>endpoint = ep, http_method = m,
      headers = (''Content-Type'', Plain ''application/json'') #
                (if truthy (authToken s) then [(''Authorization'', Bearer (authToken s))]
                 else []),
      body = b\<rparr>"

definition apiResult :: "fetch_outcome \<Rightarrow> error + jsval" where
  "apiResult out =
     (case out of
        Rejected \<Rightarrow> Inl FetchFailed
      | Responded ok data \<Rightarrow>
          if \<not> ok then Inl ApiError
          else (case data of None \<Rightarrow> Inl SyntaxError | Some d \<Rightarrow> Inr d))"

definition makeAPICall ::
  "endpoint \<Rightarrow> string \<Rightarrow> body \<Rightarrow> fetch_outcome \<Rightarrow> state \<Rightarrow> state \<times> (error + jsval)" where
  "makeAPICall ep m b out s = (emit (Fetch (apiRequest ep m b s)) s, apiResult out)"

section \<open>Documents\<close>

text \<open>
  \<^verbatim>\<open>renderDocuments\<close>: without the list element nothing happens; otherwise the list is
  emptied and \<^verbatim>\<open>uploadedDocuments.forEach\<close> runs, a TypeError when the field holds no
  array or a document is \<^verbatim>\<open>null\<close>. A document without an id is skipped. An item keeps
  the id its two buttons pass on, the name and the status shown; the other texts of an
  item and the totals of \<^verbatim>\<open>updateDocumentStats\<close> are not kept, and reading them cannot
  throw once the loop has passed. What a throw leaves behind is kept: \<open>Inl (e, s)\<close> is
  the throw of \<open>e\<close> in state \<open>s\<close>.
\<close>

definition docItem :: "jsval \<Rightarrow> (error + node option)" where
  "docItem doc =
     (if nullish doc then Inl TypeError
      else (let docId = or_else (field doc ''id'')
                          (or_else (field doc ''document_id'')
                             (or_else (field doc ''_id'') (at_index doc 0)))
            in if \<not> truthy docId then Inr None
               else Inr (Some (DocItem docId
                      (or_else (field doc ''filename'') (or_else (field doc ''name'') (at_index doc 1)))
                      (or_else (field doc ''status'')
                         (or_else (at_index doc 6) (JStr ''completed'')))))))"

definition appendChild :: "string \<Rightarrow> node \<Rightarrow> state \<Rightarrow> state" where
  "appendChild i n s = with_element i (\<lambda>el. el\<lparr>children := children el @ [n]\<rparr>) s"

fun renderEach :: "jsval list \<Rightarrow> state \<Rightarrow> (error \<times> state) + state" where
  "renderEach [] s = Inr s"
| "renderEach (doc # docs) s =
     (case docItem doc of
        Inl e \<Rightarrow> Inl (e, s)
      | Inr None \<Rightarrow> renderEach docs s
      | Inr (Some n) \<Rightarrow> renderEach docs (appendChild ''documentsList'' n s))"

definition renderDocuments :: "state \<Rightarrow> (error \<times> state) + state" where
  "renderDocuments s =
     (case page s ''documentsList'' of
        None \<Rightarrow> Inr s
      | Some el \<Rightarrow>
          (let s1 = with_element ''documentsList'' (\<lambda>el. el\<lparr>children := []\<rparr>) s
           in case uploadedDocuments s1 of
                JArr docs \<Rightarrow> renderEach docs s1
              | other \<Rightarrow> Inl (TypeError, s1)))"

text \<open>
  \<^verbatim>\<open>loadDocuments\<close>, resumed with the outcome of \<^verbatim>\<open>GET /documents\<close>. Every throw inside
  the \<^verbatim>\<open>try\<close> ends in the one notification of the \<^verbatim>\<open>catch\<close>.
\<close>

definition loadDocuments_try :: "fetch_outcome \<Rightarrow> state \<Rightarrow> (error \<times> state) + state" where
  "loadDocuments_try out s =
     (case makeAPICall Documents ''GET'' NoBody out s of
        (s1, Inl e) \<Rightarrow> Inl (e, s1)
      | (s1, Inr response) \<Rightarrow>
          (case getProp response ''documents'' of
             Inl e \<Rightarrow> Inl (e, s1)
           | Inr docs \<Rightarrow>
               if truthy docs then renderDocuments (s1\<lparr>uploadedDocuments := docs\<rparr>)
               else Inr s1))"

definition loadDocuments :: "fetch_outcome \<Rightarrow> state \<Rightarrow> state" where
  "loadDocuments out s =
     (if \<not> isLoggedIn s then s
      else (case loadDocuments_try out s of
              Inl (e, s1) \<Rightarrow> showNotification ''Failed to load documents'' ''error'' s1
            | Inr s1 \<Rightarrow> s1))"

section \<open>Login and logout\<close>

definition showLoginModal :: "state \<Rightarrow> state" where
  "showLoginModal s = with_element ''loginModal'' (reveal ''flex'') s"

text \<open>
  \<^verbatim>\<open>loginForm.reset()\<close> puts the form's controls back to their defaults; the controls
  the controller reads from that form are the two inputs, blank by default.
\<close>

definition hideLoginModal :: "state \<Rightarrow> state" where
  "hideLoginModal s =
     (let s1 = with_element ''loginModal'' conceal s
      in case page s1 ''loginForm'' of
           None \<Rightarrow> s1
         | Some form \<Rightarrow>
             with_element ''password'' (\<lambda>el. el\<lparr>val := []\<rparr>)
               (with_element ''username'' (\<lambda>el. el\<lparr>val := []\<rparr>) s1))"

definition showAdminPanel :: "state \<Rightarrow> (error \<times> state) + state" where
  "showAdminPanel s =
     (let s1 = with_element ''mainView'' conceal s;
          s2 = with_element ''adminPanel'' (reveal ''block'') s1;
          s3 = updateAuthButtons s2
      in renderDocuments s3)"

definition showMainView :: "state \<Rightarrow> state" where
  "showMainView s =
     (let s1 = with_element ''mainView'' (reveal ''block'') s;
          s2 = with_element ''adminPanel'' conceal s1
      in updateAuthButtons s2)"

text \<open>
  \<^verbatim>\<open>handleLogin\<close>, resumed with the outcome of \<^verbatim>\<open>POST /auth/login\<close> and, after a
  successful login, with the outcome of \<^verbatim>\<open>GET /documents\<close>. \<open>handleLogin_try\<close> is the
  body of the \<^verbatim>\<open>try\<close>.
\<close>

definition handleLogin_try ::
  "string \<Rightarrow> string \<Rightarrow> fetch_outcome \<Rightarrow> fetch_outcome \<Rightarrow> state \<Rightarrow> (error \<times> state) + state" where
  "handleLogin_try username password out docs_out s =
     (let s1 = showNotification ''Logging in...'' ''info'' s
      in case makeAPICall AuthLogin ''POST''
                (JsonBody (JObj [(''username'', JStr username), (''password'', JStr password)]))
                out s1 of
           (s2, Inl e) \<Rightarrow> Inl (e, s2)
         | (s2, Inr response) \<Rightarrow>
             if truthy (optProp response ''access_token'') then
               (case getProp response ''access_token'' of
                  Inl e \<Rightarrow> Inl (e, s2)
                | Inr token \<Rightarrow>
                    (case getProp response ''user'' of
                       Inl e \<Rightarrow> Inl (e, s2\<lparr>authToken := token\<rparr>)
                     | Inr user \<Rightarrow>
                         (let s3 = s2\<lparr>authToken := token, currentUser := user,
                                       isLoggedIn := True\<rparr>;
                              s4 = hideLoginModal s3
                          in case showAdminPanel s4 of
                               Inl (e, s5) \<Rightarrow> Inl (e, s5)
                             | Inr s5 \<Rightarrow>
                                 Inr (loadDocuments docs_out
                                        (showNotification
                                           ''Login successful! Welcome to admin panel.''
                                           ''success'' s5)))))
             else Inr s2)"

definition handleLogin :: "fetch_outcome \<Rightarrow> fetch_outcome \<Rightarrow> state \<Rightarrow> state" where
  "handleLogin out docs_out s =
     (case (page s ''username'', page s ''password'') of
        (Some usernameEl, Some passwordEl) \<Rightarrow>
          (let username = trim (val usernameEl); password = trim (val passwordEl)
           in if username = [] \<or> password = []
              then showNotification ''Please enter both username and password'' ''error'' s
              else (case handleLogin_try username password out docs_out s of
                      Inl (e, s1) \<Rightarrow>
                        showNotification ''Login failed. Please check your credentials.''
                          ''error'' s1
                    | Inr s1 \<Rightarrow> s1))
      | other \<Rightarrow> s)"

definition handleLogout :: "state \<Rightarrow> state" where
  "handleLogout s =
     (let s1 = s\<lparr>isLoggedIn := False, currentUser := JNull, authToken := JNull,
                  uploadedDocuments := JArr []\<rparr>;
          s2 = showMainView s1
      in showNotification ''Logged out successfully'' ''success'' s2)"


section \<open>Selecting and uploading files\<close>

text \<open>
  \<^verbatim>\<open>handleFileSelect(files)\<close> rebuilds the visible list: an item for each valid file, a
  notification for each other one. It reads and writes nothing but the list element.
\<close>

definition unsupported :: "jsfile \<Rightarrow> string" where
  "unsupported f =
     ''File '' @ name f @ '' is not supported. Please upload .txt, .pdf, .doc, or .docx files.''"

definition selectOne :: "jsfile \<Rightarrow> state \<Rightarrow> state" where
  "selectOne f s =
     (if isValidFile f then appendChild ''fileList'' (FileItem f) s
      else showNotification (unsupported f) ''error'' s)"

definition handleFileSelect :: "jsfile list \<Rightarrow> state \<Rightarrow> state" where
  "handleFileSelect fs s =
     (case page s ''fileList'' of
        None \<Rightarrow> s
      | Some el \<Rightarrow> fold selectOne fs (with_element ''fileList'' (\<lambda>el. el\<lparr>children := []\<rparr>) s))"

text \<open>
  The two ways \<^verbatim>\<open>setupFileUpload\<close> wires a selection in: the \<^verbatim>\<open>change\<close> event of the
  file input, whose \<^verbatim>\<open>files\<close> the browser has set to the selection, and a \<^verbatim>\<open>drop\<close> on
  the upload area, which leaves the input as it was.
\<close>

definition fileInput_change :: "jsfile list \<Rightarrow> state \<Rightarrow> state" where
  "fileInput_change fs s =
     handleFileSelect fs (with_element ''fileInput'' (\<lambda>el. el\<lparr>files := fs\<rparr>) s)"

definition fileUploadArea_drop :: "jsfile list \<Rightarrow> state \<Rightarrow> state" where
  "fileUploadArea_drop fs s = handleFileSelect fs s"

definition showUploadProgressModal :: "state \<Rightarrow> state" where
  "showUploadProgressModal s = with_element ''uploadProgressModal'' (reveal ''flex'') s"

definition hideUploadProgressModal :: "state \<Rightarrow> state" where
  "hideUploadProgressModal s = with_element ''uploadProgressModal'' conceal s"

text \<open>
  \<^verbatim>\<open>uploadForm.reset()\<close> puts the form's controls (the two selectors and the file input)
  back to their defaults; the option list of the project selector is not kept, its
  value is.
\<close>

definition resetUploadForm :: "state \<Rightarrow> state" where
  "resetUploadForm s =
     (let s1 = (case page s ''uploadForm'' of
                  None \<Rightarrow> s
                | Some form \<Rightarrow>
                    with_element ''fileInput'' (\<lambda>el. el\<lparr>val := [], files := []\<rparr>)
                      (with_element ''projectSelect'' (\<lambda>el. el\<lparr>val := []\<rparr>)
                         (with_element ''teamSelect'' (\<lambda>el. el\<lparr>val := []\<rparr>) s)));
          s2 = with_element ''fileList'' (\<lambda>el. el\<lparr>children := []\<rparr>) s1;
          s3 = with_element ''teamSelect'' (\<lambda>el. el\<lparr>val := []\<rparr>) s2
      in with_element ''projectSelect'' (\<lambda>el. el\<lparr>val := []\<rparr>) s3)"

text \<open>
  \<^verbatim>\<open>uploadFiles(team, project, files)\<close>: every file of \<^verbatim>\<open>files\<close> becomes a \<^verbatim>\<open>files\<close> part
  of the form. The request goes through \<^verbatim>\<open>fetch\<close> itself, with the bearer header
  whatever the token is. The \<^verbatim>\<open>catch\<close> hides the progress modal and throws again.
\<close>

definition uploadRequest :: "string \<Rightarrow> string \<Rightarrow> jsfile list \<Rightarrow> state \<Rightarrow> request" where
  "uploadRequest team project fs s =
     \<lparr>endpoint = DocumentsUpload, http_method = ''POST'',
      headers = [(''Authorization'', Bearer (authToken s))],
      body = FormBody ([(''team'', Field team), (''project'', Field project)] @
                       map (\<lambda>f. (''files'', FilePart f)) fs)\<rparr>"

definition uploadFiles ::
  "string \<Rightarrow> string \<Rightarrow> jsfile list \<Rightarrow> fetch_outcome \<Rightarrow> fetch_outcome \<Rightarrow> state
     \<Rightarrow> (error \<times> state) + state" where
  "uploadFiles team project fs out docs_out s =
     (let s1 = showUploadProgressModal s;
          s2 = emit (Fetch (uploadRequest team project fs s1)) s1
      in case out of
           Rejected \<Rightarrow> Inl (FetchFailed, hideUploadProgressModal s2)
         | Responded ok data \<Rightarrow>
             if \<not> ok then Inl (ApiError, hideUploadProgressModal s2)
             else (case data of
                     None \<Rightarrow> Inl (SyntaxError, hideUploadProgressModal s2)
                   | Some d \<Rightarrow>
                       (let s3 = hideUploadProgressModal s2;
                            s4 = showNotification ''Files uploaded successfully!'' ''success'' s3;
                            s5 = loadDocuments docs_out s4
                        in Inr (resetUploadForm s5))))"

definition handleFileUpload :: "fetch_outcome \<Rightarrow> fetch_outcome \<Rightarrow> state \<Rightarrow> state" where
  "handleFileUpload out docs_out s =
     (if \<not> isLoggedIn s then showNotification ''Please login first'' ''error'' s
      else (case (page s ''teamSelect'', page s ''projectSelect'', page s ''fileInput'') of
              (Some teamSelect, Some projectSelect, Some fileInput) \<Rightarrow>
                (let team = val teamSelect; project = val projectSelect;
                     fs = files fileInput
                 in if team = [] \<or> project = []
                    then showNotification ''Please select both team and project'' ''error'' s
                    else if fs = []
                    then showNotification ''Please select files to upload'' ''error'' s
                    else (case uploadFiles team project fs out docs_out s of
                            Inl (e, s1) \<Rightarrow>
                              showNotification ''Upload failed. Please try again.'' ''error'' s1
                          | Inr s1 \<Rightarrow> s1))
            | other \<Rightarrow> s))"

section \<open>Downloading and deleting a document\<close>

definition invalidId :: "jsval \<Rightarrow> bool" where
  "invalidId i = (\<not> truthy i \<or> i = JStr ''undefined'')"

definition downloadDocument :: "jsval \<Rightarrow> state \<Rightarrow> state" where
  "downloadDocument i s =
     (if \<not> isLoggedIn s then showNotification ''Please login first'' ''error'' s
      else if invalidId i then showNotification ''Invalid document ID'' ''error'' s
      else showNotification ''Download started...'' ''info''
             (emit (WindowOpen (DocumentDownload i)) s))"

text \<open>
  \<^verbatim>\<open>deleteDocument(id)\<close>, with the answer the user gives to \<^verbatim>\<open>confirm\<close> and the outcomes
  of \<^verbatim>\<open>DELETE /documents/${id}\<close> and of the reload that follows it.
\<close>

definition deleteDocument ::
  "jsval \<Rightarrow> bool \<Rightarrow> fetch_outcome \<Rightarrow> fetch_outcome \<Rightarrow> state \<Rightarrow> state" where
  "deleteDocument i confirmed out docs_out s =
     (if \<not> isLoggedIn s then showNotification ''Please login first'' ''error'' s
      else if invalidId i then showNotification ''Invalid document ID'' ''error'' s
      else (let s1 = emit (Confirm ''Are you sure you want to delete this document?'') s
            in if \<not> confirmed then s1
               else (case makeAPICall (DocumentById i) ''DELETE'' NoBody out s1 of
                       (s2, Inl e) \<Rightarrow> showNotification ''Delete failed'' ''error'' s2
                     | (s2, Inr response) \<Rightarrow>
                         loadDocuments docs_out
                           (showNotification ''Document deleted successfully'' ''success'' s2))))"


section \<open>Questions and the chat history\<close>

definition updateChatHistoryDisplay :: "state \<Rightarrow> state" where
  "updateChatHistoryDisplay s =
     with_element ''chatHistoryList'' (\<lambda>el. el\<lparr>children := map HistoryItem (chatHistory s)\<rparr>) s"

text \<open>\<^verbatim>\<open>unshift\<close> puts the question in front; beyond ten entries \<^verbatim>\<open>slice(0, 10)\<close> cuts.\<close>

definition addToChatHistory :: "string \<Rightarrow> state \<Rightarrow> state" where
  "addToChatHistory question s =
     (let s1 = s\<lparr>chatHistory := question # chatHistory s\<rparr>;
          s2 = (if length (chatHistory s1) > 10
                then s1\<lparr>chatHistory := take 10 (chatHistory s1)\<rparr> else s1)
      in updateChatHistoryDisplay s2)"

definition clearChatHistory :: "state \<Rightarrow> state" where
  "clearChatHistory s =
     with_element ''chatHistory'' (\<lambda>el. el\<lparr>hidden := True\<rparr>)
       (updateChatHistoryDisplay (s\<lparr>chatHistory := []\<rparr>))"

definition clearResults :: "state \<Rightarrow> state" where
  "clearResults s =
     (let s1 = with_element ''resultsContent'' (\<lambda>el. el\<lparr>children := []\<rparr>) s;
          s2 = with_element ''resultsSection'' (\<lambda>el. el\<lparr>hidden := True\<rparr>) s1
      in with_element ''chatHistory'' (\<lambda>el. el\<lparr>hidden := True\<rparr>) s2)"

definition showProcessing :: "state \<Rightarrow> state" where
  "showProcessing s = with_element ''processingOverlay'' (reveal ''flex'') s"

definition hideProcessing :: "state \<Rightarrow> state" where
  "hideProcessing s = with_element ''processingOverlay'' conceal s"

text \<open>
  \<^verbatim>\<open>displayResult(question, response)\<close>: the template reads \<^verbatim>\<open>response.answer\<close>, maps
  over \<^verbatim>\<open>response.sources\<close> reading each \<^verbatim>\<open>filename\<close>, and reads \<^verbatim>\<open>response.confidence\<close>;
  each read can be the TypeError of a missing value. The new item goes in front.
\<close>

fun sourceNames :: "jsval list \<Rightarrow> error + jsval list" where
  "sourceNames [] = Inr []"
| "sourceNames (source # sources) =
     (case getProp source ''filename'' of
        Inl e \<Rightarrow> Inl e
      | Inr filename \<Rightarrow>
          (case sourceNames sources of Inl e \<Rightarrow> Inl e | Inr rest \<Rightarrow> Inr (filename # rest)))"

definition resultItem :: "string \<Rightarrow> jsval \<Rightarrow> error + node" where
  "resultItem question response =
     (case getProp response ''answer'' of
        Inl e \<Rightarrow> Inl e
      | Inr answer \<Rightarrow>
          (case field response ''sources'' of
             JArr sources \<Rightarrow>
               (case sourceNames sources of
                  Inl e \<Rightarrow> Inl e
                | Inr filenames \<Rightarrow>
                    Inr (ResultItem question answer filenames (field response ''confidence'')))
           | other \<Rightarrow> Inl TypeError))"

definition displayResult :: "string \<Rightarrow> jsval \<Rightarrow> state \<Rightarrow> (error \<times> state) + state" where
  "displayResult question response s =
     (case (page s ''resultsSection'', page s ''resultsContent'') of
        (Some resultsSection, Some resultsContent) \<Rightarrow>
          (let s1 = with_element ''resultsSection'' (\<lambda>el. el\<lparr>hidden := False\<rparr>) s
           in case resultItem question response of
                Inl e \<Rightarrow> Inl (e, s1)
              | Inr item \<Rightarrow>
                  (let s2 = with_element ''resultsContent''
                              (\<lambda>el. el\<lparr>children := item # children el\<rparr>) s1
                   in Inr (if length (chatHistory s2) > 0
                           then with_element ''chatHistory'' (\<lambda>el. el\<lparr>hidden := False\<rparr>) s2
                           else s2)))
      | other \<Rightarrow> Inr s)"

text \<open>
  \<^verbatim>\<open>handleQuestion\<close>, resumed with the outcome of \<^verbatim>\<open>POST /ask\<close>. \<open>handleQuestion_try\<close> is
  the body of the \<^verbatim>\<open>try\<close>, \<open>handleQuestion_catch\<close> the \<^verbatim>\<open>try\<close> with its \<^verbatim>\<open>catch\<close>; the
  \<^verbatim>\<open>finally\<close> is the \<open>hideProcessing\<close> around them.
\<close>

definition handleQuestion_try :: "string \<Rightarrow> fetch_outcome \<Rightarrow> state \<Rightarrow> (error \<times> state) + state" where
  "handleQuestion_try question out s =
     (case makeAPICall Ask ''POST'' (JsonBody (JObj [(''question'', JStr question)])) out s of
        (s1, Inl e) \<Rightarrow> Inl (e, s1)
      | (s1, Inr response) \<Rightarrow>
          (case displayResult question response s1 of
             Inl (e, s2) \<Rightarrow> Inl (e, s2)
           | Inr s2 \<Rightarrow> Inr (with_element ''questionInput'' (\<lambda>el. el\<lparr>val := []\<rparr>) s2)))"

definition handleQuestion_catch :: "string \<Rightarrow> fetch_outcome \<Rightarrow> state \<Rightarrow> state" where
  "handleQuestion_catch question out s =
     (case handleQuestion_try question out s of
        Inl (e, s1) \<Rightarrow>
          showNotification ''Failed to process question. Please try again.'' ''error'' s1
      | Inr s1 \<Rightarrow> s1)"

definition handleQuestion :: "fetch_outcome \<Rightarrow> state \<Rightarrow> state" where
  "handleQuestion out s =
     (case page s ''questionInput'' of
        None \<Rightarrow> s
      | Some questionInput \<Rightarrow>
          (let question = trim (val questionInput)
           in if question = [] then showNotification ''Please enter a question'' ''error'' s
              else if length question < 3
              then showNotification ''Question must be at least 3 characters long'' ''error'' s
              else (let s1 = showProcessing s;
                        s2 = addToChatHistory question s1
                    in hideProcessing (handleQuestion_catch question out s2))))"

section \<open>Sessions\<close>

text \<open>
  The two operations on the session as the user performs them: filling in the login form
  and submitting it (\<^verbatim>\<open>handleLogin\<close> runs on the \<^verbatim>\<open>submit\<close> event), and the click on the
  logout button.
\<close>

datatype session_op = Login string string fetch_outcome fetch_outcome | Logout

fun session_step :: "session_op \<Rightarrow> state \<Rightarrow> state" where
  "session_step (Login username password out docs_out) s =
     handleLogin out docs_out
       (with_element ''password'' (\<lambda>el. el\<lparr>val := password\<rparr>)
          (with_element ''username'' (\<lambda>el. el\<lparr>val := username\<rparr>) s))"
| "session_step Logout s = handleLogout s"

definition session_run :: "session_op list \<Rightarrow> state \<Rightarrow> state" where
  "session_run ops s = fold session_step ops s"


section \<open>Auxiliary notions for the properties\<close>

text \<open>The state a run ends in, thrown or returned.\<close>

definition final :: "(error \<times> state) + state \<Rightarrow> state" where
  "final r = (case r of Inl (e, s) \<Rightarrow> s | Inr s \<Rightarrow> s)"

text \<open>The three session fields together.\<close>

definition session :: "state \<Rightarrow> bool \<times> jsval \<times> jsval" where
  "session s = (isLoggedIn s, currentUser s, authToken s)"

text \<open>
  The backend's side of the login contract: a response that carries a truthy
  \<^verbatim>\<open>access_token\<close> carries a \<^verbatim>\<open>user\<close> that is neither \<^verbatim>\<open>null\<close> nor missing.
\<close>

fun carries_user :: "session_op \<Rightarrow> bool" where
  "carries_user (Login username password (Responded ok (Some response)) docs_out) =
     (truthy (optProp response ''access_token'') \<longrightarrow> \<not> nullish (field response ''user''))"
| "carries_user other = True"

definition session_ok :: "bool \<Rightarrow> state \<Rightarrow> bool" where
  "session_ok with_user s =
     (isLoggedIn s \<longrightarrow> truthy (authToken s) \<and> (with_user \<longrightarrow> \<not> nullish (currentUser s)))"

text \<open>What the user types or picks in a control before a handler reads it.\<close>

definition user_enters :: "string \<Rightarrow> string \<Rightarrow> state \<Rightarrow> state" where
  "user_enters i v s = with_element i (\<lambda>el. el\<lparr>val := v\<rparr>) s"

section \<open>Example pages and states\<close>

text \<open>A page with every element the controller looks up, all of them blank and shown.\<close>

definition blank :: element where
  "blank = \<lparr>hidden = False, display = [], val = [], files = [], children = []\<rparr>"

definition full_page :: "string \<rightharpoonup> element" where
  "full_page =
     map_of (map (\<lambda>i. (i, blank))
       [''loginModal'', ''uploadProgressModal'', ''processingOverlay'', ''mainView'',
        ''adminPanel'', ''adminLoginBtn'', ''logoutBtn'', ''loginForm'', ''username'',
        ''password'', ''uploadForm'', ''teamSelect'', ''projectSelect'', ''fileInput'',
        ''fileList'', ''documentsList'', ''questionInput'', ''resultsSection'',
        ''resultsContent'', ''chatHistory'', ''chatHistoryList''])"

definition ten_questions :: "string list" where
  "ten_questions =
     [''q10'', ''q9'', ''q8'', ''q7'', ''q6'', ''q5'', ''q4'', ''q3'', ''q2'', ''q1'']"

definition full_history :: state where
  "full_history = (HelperGPT Map.empty)\<lparr>chatHistory := ten_questions\<rparr>"

text \<open>Responses of the backend: a login with token and user, one whose user is
  \<^verbatim>\<open>null\<close>, a 200 without a token, a 401, an empty document list, an answer.\<close>

definition good_login :: fetch_outcome where
  "good_login =
     Responded True (Some (JObj [(''access_token'', JStr ''tok''),
                                 (''user'', JObj [(''username'', JStr ''admin'')])]))"

definition userless_login :: fetch_outcome where
  "userless_login =
     Responded True (Some (JObj [(''access_token'', JStr ''tok''), (''user'', JNull)]))"

definition tokenless_login :: fetch_outcome where
  "tokenless_login = Responded True (Some (JObj [(''detail'', JStr ''Invalid credentials'')]))"

definition unauthorized :: fetch_outcome where
  "unauthorized = Responded False None"

definition no_documents :: fetch_outcome where
  "no_documents = Responded True (Some (JObj [(''documents'', JArr [])]))"

definition pto_answer :: fetch_outcome where
  "pto_answer =
     Responded True (Some (JObj [(''answer'', JStr ''Twenty days.''),
                                 (''sources'', JArr [JObj [(''filename'', JStr ''hr.pdf'')]]),
                                 (''confidence'', JNum (87 / 100))]))"

text \<open>States: the login modal open on a fresh page, an administrator logged in, the
  upload form filled in, a question typed.\<close>

definition login_open :: state where
  "login_open = showLoginModal (HelperGPT full_page)"

definition logged_in :: state where
  "logged_in =
     session_run [Login ''admin'' ''secret'' good_login no_documents] (HelperGPT full_page)"

definition setup_exe :: jsfile where
  "setup_exe = \<lparr>name = ''setup.exe'', fsize = 2048\<rparr>"

definition report_pdf :: jsfile where
  "report_pdf = \<lparr>name = ''report.pdf'', fsize = 1024\<rparr>"

definition ready_to_upload :: state where
  "ready_to_upload =
     user_enters ''projectSelect'' ''Cloud Team''
       (user_enters ''teamSelect'' ''Engineering'' logged_in)"

definition upload_attempt :: state where
  "upload_attempt =
     handleFileUpload (Responded True (Some (JObj []))) no_documents
       (fileInput_change [setup_exe, report_pdf] ready_to_upload)"

definition short_question :: state where
  "short_question = user_enters ''questionInput'' ''  hi  '' (HelperGPT full_page)"

definition pto_question :: state where
  "pto_question =
     user_enters ''questionInput'' ''What is our PTO policy?'' (HelperGPT full_page)"


section \<open>Basic facts about the state\<close>

lemma with_element_frame [simp]:
  "isLoggedIn (with_element i f s) = isLoggedIn s"
  "currentUser (with_element i f s) = currentUser s"
  "authToken (with_element i f s) = authToken s"
  "chatHistory (with_element i f s) = chatHistory s"
  "uploadedDocuments (with_element i f s) = uploadedDocuments s"
  "effects (with_element i f s) = effects s"
  by (simp_all add: with_element_def split: option.splits)

lemma page_with_element [simp]:
  "page (with_element i f s) j = (if j = i then map_option f (page s i) else page s j)"
  by (simp add: with_element_def split: option.splits)

lemma emit_frame [simp]:
  "isLoggedIn (emit e s) = isLoggedIn s"
  "currentUser (emit e s) = currentUser s"
  "authToken (emit e s) = authToken s"
  "chatHistory (emit e s) = chatHistory s"
  "uploadedDocuments (emit e s) = uploadedDocuments s"
  "page (emit e s) = page s"
  "effects (emit e s) = effects s @ [e]"
  by (simp_all add: emit_def)

lemma updateAuthButtons_frame [simp]:
  "isLoggedIn (updateAuthButtons s) = isLoggedIn s"
  "currentUser (updateAuthButtons s) = currentUser s"
  "authToken (updateAuthButtons s) = authToken s"
  "chatHistory (updateAuthButtons s) = chatHistory s"
  "uploadedDocuments (updateAuthButtons s) = uploadedDocuments s"
  "effects (updateAuthButtons s) = effects s"
  by (simp_all add: updateAuthButtons_def)

lemma HelperGPT_fields [simp]:
  "isLoggedIn (HelperGPT pg) = False"
  "currentUser (HelperGPT pg) = JNull"
  "authToken (HelperGPT pg) = JNull"
  "chatHistory (HelperGPT pg) = []"
  "uploadedDocuments (HelperGPT pg) = JArr []"
  "effects (HelperGPT pg) = []"
  by (simp_all add: HelperGPT_def forceMainViewVisible_def Let_def)

section \<open>The extension allow-list\<close>

lemma split_on_not_Nil: "split_on sep cs \<noteq> []"
  by (induction cs) (auto split: list.splits)

lemma split_on_without: "sep \<notin> set cs \<Longrightarrow> split_on sep cs = [cs]"
  by (induction cs) auto

lemma split_on_last: "sep \<notin> set ext \<Longrightarrow> last (split_on sep (base @ sep # ext)) = ext"
proof (induction base)
  case Nil
  then show ?case by (simp add: split_on_without)
next
  case (Cons c base)
  have two: "tl (split_on sep (base @ sep # ext)) \<noteq> []" for base
    by (induction base) (auto simp: split_on_not_Nil split: list.splits)
  from Cons two[of base] show ?case
    by (auto simp: split_on_not_Nil split: list.splits)
qed

lemma lower_char_same_letter:
  assumes "same_letter c d" and "97 \<le> (of_char d :: nat)" and "(of_char d :: nat) \<le> 122"
  shows "lower_char c = d"
proof -
  consider "c = d" | "is_ascii_upper c" "(of_char d :: nat) = of_char c + 32"
    using assms by (auto simp: same_letter_def is_ascii_upper_def)
  then show ?thesis
  proof cases
    case 1
    with assms show ?thesis by (simp add: lower_char_def Let_def)
  next
    case 2
    then have "char_of (of_char c + 32 :: nat) = d"
      by (metis char_of_char)
    with 2 show ?thesis by (simp add: lower_char_def Let_def is_ascii_upper_def)
  qed
qed

lemma toLowerCase_allowed:
  assumes "same_ignoring_case ext a" and "a \<in> {''txt'', ''pdf'', ''doc'', ''docx''}"
  shows "toLowerCase ext = a"
  using assms
  by (auto simp: same_ignoring_case_def toLowerCase_def list_all2_Cons2
      intro!: lower_char_same_letter)

text \<open>
  C10. A file whose name ends in a dot followed by an extension that equals \<^verbatim>\<open>txt\<close>,
  \<^verbatim>\<open>pdf\<close>, \<^verbatim>\<open>doc\<close> or \<^verbatim>\<open>docx\<close> when case is ignored passes \<open>isValidFile\<close>: the
  comparison with the allow-list is case-insensitive.
\<close>

theorem isValidFile_ignores_case:
  assumes "name f = base @ ''.'' @ ext" and "CHR ''.'' \<notin> set ext"
    and "same_ignoring_case ext a" and "a \<in> {''txt'', ''pdf'', ''doc'', ''docx''}"
  shows "isValidFile f"
proof -
  have "last (split_on CHR ''.'' (name f)) = ext"
    using assms(1,2) split_on_last[of "CHR ''.''" ext base] by simp
  moreover have "toLowerCase ext = a"
    using assms(3,4) by (rule toLowerCase_allowed)
  ultimately show ?thesis
    using assms(4) by (auto simp: isValidFile_def fileExtension_def validTypes_def)
qed

theorem isValidFile_ignores_case_witness:
  "same_ignoring_case ''PDF'' ''pdf'' \<and> isValidFile \<lparr>name = ''REPORT.PDF'', fsize = 1024\<rparr>"
  using isValidFile_ignores_case
          [of "\<lparr>name = ''REPORT.PDF'', fsize = 1024\<rparr>" "''REPORT''" "''PDF''" "''pdf''"]
  by (simp add: same_ignoring_case_def same_letter_def is_ascii_upper_def)

section \<open>The chat history\<close>

lemma take_append_take: "take n (xs @ take n ys) = take n (xs @ ys)"
  by (simp add: min_def)

lemma chatHistory_addToChatHistory:
  "chatHistory (addToChatHistory q s) = take 10 (q # chatHistory s)"
  by (simp add: addToChatHistory_def updateChatHistoryDisplay_def Let_def)

lemma chatHistory_fold:
  "length (chatHistory s) \<le> 10 \<Longrightarrow>
   chatHistory (fold addToChatHistory qs s) = take 10 (rev qs @ chatHistory s)"
proof (induction qs arbitrary: s)
  case Nil
  then show ?case by simp
next
  case (Cons q qs)
  have "length (chatHistory (addToChatHistory q s)) \<le> 10"
    by (simp add: chatHistory_addToChatHistory)
  then have "chatHistory (fold addToChatHistory qs (addToChatHistory q s)) =
             take 10 (rev qs @ take 10 (q # chatHistory s))"
    using Cons.IH by (simp add: chatHistory_addToChatHistory)
  also have "\<dots> = take 10 (rev qs @ q # chatHistory s)"
    by (rule take_append_take)
  finally show ?case by simp
qed

lemma displayResult_chatHistory:
  "displayResult q r s = Inl (e, s') \<Longrightarrow> chatHistory s' = chatHistory s"
  "displayResult q r s = Inr s' \<Longrightarrow> chatHistory s' = chatHistory s"
  by (auto simp: displayResult_def Let_def split: option.splits sum.splits if_splits)

lemma handleQuestion_catch_chatHistory:
  "chatHistory (handleQuestion_catch q out s) = chatHistory s"
  by (auto simp: handleQuestion_catch_def handleQuestion_try_def showNotification_def
      makeAPICall_def dest: displayResult_chatHistory split: sum.splits prod.splits)

lemma handleQuestion_chatHistory:
  "chatHistory (handleQuestion out s) =
     (case page s ''questionInput'' of
        None \<Rightarrow> chatHistory s
      | Some qi \<Rightarrow> if length (trim (val qi)) < 3 then chatHistory s
                   else take 10 (trim (val qi) # chatHistory s))"
  by (auto simp: handleQuestion_def Let_def showNotification_def hideProcessing_def
      showProcessing_def handleQuestion_catch_chatHistory chatHistory_addToChatHistory
      split: option.splits)

text \<open>
  C3. Whatever questions are added, starting from the constructor's empty history, the
  history holds at most ten of them: the last ten, newest first. Adding a question to a
  history of ten drops its last (oldest) entry and puts the new question in front. A run
  of \<open>handleQuestion\<close> keeps the bound as well.
\<close>

theorem chat_history_bounded:
  "length (chatHistory (fold addToChatHistory qs (HelperGPT pg))) \<le> 10
   \<and> chatHistory (fold addToChatHistory qs (HelperGPT pg)) = take 10 (rev qs)
   \<and> (length (chatHistory s) = 10 \<longrightarrow>
        chatHistory (addToChatHistory q s) = q # butlast (chatHistory s))
   \<and> (length (chatHistory s) \<le> 10 \<longrightarrow> length (chatHistory (handleQuestion out s)) \<le> 10)"
proof -
  have run: "chatHistory (fold addToChatHistory qs (HelperGPT pg)) = take 10 (rev qs)"
    using chatHistory_fold[of "HelperGPT pg" qs] by simp
  have evict: "chatHistory (addToChatHistory q s) = q # butlast (chatHistory s)"
    if "length (chatHistory s) = 10"
    using that by (simp add: chatHistory_addToChatHistory butlast_conv_take)
  have ask: "length (chatHistory (handleQuestion out s)) \<le> 10"
    if "length (chatHistory s) \<le> 10"
    using that by (simp add: handleQuestion_chatHistory split: option.splits)
  from run evict ask show ?thesis by simp
qed

theorem chat_history_bounded_witness:
  "length (chatHistory full_history) = 10
   \<and> chatHistory (addToChatHistory ''q11'' full_history)
       = [''q11'', ''q10'', ''q9'', ''q8'', ''q7'', ''q6'', ''q5'', ''q4'', ''q3'', ''q2'']
   \<and> length (chatHistory (handleQuestion Rejected full_history)) \<le> 10"
  using chat_history_bounded[of "[]" Map.empty full_history "''q11''" Rejected]
  by (simp add: full_history_def ten_questions_def)

section \<open>How the handlers leave the state\<close>

lemma final_simps [simp]: "final (Inl (e, s)) = s" "final (Inr s) = s"
  by (simp_all add: final_def)

lemma showNotification_frame [simp]:
  "isLoggedIn (showNotification m k s) = isLoggedIn s"
  "currentUser (showNotification m k s) = currentUser s"
  "authToken (showNotification m k s) = authToken s"
  "chatHistory (showNotification m k s) = chatHistory s"
  "uploadedDocuments (showNotification m k s) = uploadedDocuments s"
  "page (showNotification m k s) = page s"
  "effects (showNotification m k s) = effects s @ [Notification m k]"
  by (simp_all add: showNotification_def)

lemma renderEach_frame:
  "isLoggedIn (final (renderEach docs s)) = isLoggedIn s
   \<and> currentUser (final (renderEach docs s)) = currentUser s
   \<and> authToken (final (renderEach docs s)) = authToken s
   \<and> chatHistory (final (renderEach docs s)) = chatHistory s
   \<and> uploadedDocuments (final (renderEach docs s)) = uploadedDocuments s
   \<and> effects (final (renderEach docs s)) = effects s
   \<and> (j \<noteq> ''documentsList'' \<longrightarrow> page (final (renderEach docs s)) j = page s j)"
  by (induction docs arbitrary: s)
     (auto simp: appendChild_def split: sum.splits option.splits)

lemma renderDocuments_frame:
  "isLoggedIn (final (renderDocuments s)) = isLoggedIn s
   \<and> currentUser (final (renderDocuments s)) = currentUser s
   \<and> authToken (final (renderDocuments s)) = authToken s
   \<and> chatHistory (final (renderDocuments s)) = chatHistory s
   \<and> uploadedDocuments (final (renderDocuments s)) = uploadedDocuments s
   \<and> effects (final (renderDocuments s)) = effects s
   \<and> (j \<noteq> ''documentsList'' \<longrightarrow> page (final (renderDocuments s)) j = page s j)"
  using renderEach_frame[of _ "with_element ''documentsList'' (\<lambda>el. el\<lparr>children := []\<rparr>) s" j]
  by (auto simp: renderDocuments_def Let_def split: option.splits jsval.splits)

lemma page_updateAuthButtons:
  "j \<noteq> ''logoutBtn'' \<Longrightarrow> j \<noteq> ''adminLoginBtn'' \<Longrightarrow> page (updateAuthButtons s) j = page s j"
  by (simp add: updateAuthButtons_def)

lemma loadDocuments_try_frame:
  "isLoggedIn (final (loadDocuments_try out s)) = isLoggedIn s
   \<and> currentUser (final (loadDocuments_try out s)) = currentUser s
   \<and> authToken (final (loadDocuments_try out s)) = authToken s
   \<and> chatHistory (final (loadDocuments_try out s)) = chatHistory s
   \<and> effects (final (loadDocuments_try out s))
       = effects s @ [Fetch (apiRequest Documents ''GET'' NoBody s)]
   \<and> (j \<noteq> ''documentsList'' \<longrightarrow> page (final (loadDocuments_try out s)) j = page s j)"
proof -
  let ?s1 = "emit (Fetch (apiRequest Documents ''GET'' NoBody s)) s"
  show ?thesis
  proof (cases "apiResult out")
    case (Inl e)
    then show ?thesis by (simp add: loadDocuments_try_def makeAPICall_def)
  next
    case (Inr response)
    show ?thesis
    proof (cases "getProp response ''documents''")
      case (Inl e)
      with Inr show ?thesis by (simp add: loadDocuments_try_def makeAPICall_def)
    next
      case docs: (Inr docs)
      show ?thesis
      proof (cases "truthy docs")
        case True
        with Inr docs renderDocuments_frame[of "?s1\<lparr>uploadedDocuments := docs\<rparr>" j]
        show ?thesis by (simp add: loadDocuments_try_def makeAPICall_def)
      next
        case False
        with Inr docs show ?thesis by (simp add: loadDocuments_try_def makeAPICall_def)
      qed
    qed
  qed
qed

lemma loadDocuments_frame:
  "isLoggedIn (loadDocuments out s) = isLoggedIn s
   \<and> currentUser (loadDocuments out s) = currentUser s
   \<and> authToken (loadDocuments out s) = authToken s
   \<and> chatHistory (loadDocuments out s) = chatHistory s
   \<and> (\<exists>rest. effects (loadDocuments out s) = effects s @ rest)
   \<and> (j \<noteq> ''documentsList'' \<longrightarrow> page (loadDocuments out s) j = page s j)"
proof (cases "isLoggedIn s")
  case False
  then show ?thesis by (simp add: loadDocuments_def)
next
  case True
  with loadDocuments_try_frame[of out s j] show ?thesis
    by (cases "loadDocuments_try out s") (auto simp: loadDocuments_def)
qed

section \<open>Logout\<close>

text \<open>
  C7. After \<open>handleLogout\<close>, from any state, the token and the user are \<^verbatim>\<open>null\<close>, the
  controller is logged out, the document list is the empty array, and the page is in the
  main view: the admin panel, where the page has one, is hidden, and the main view is
  shown.
\<close>

theorem logout_clears_session:
  "authToken (handleLogout s) = JNull
   \<and> currentUser (handleLogout s) = JNull
   \<and> \<not> isLoggedIn (handleLogout s)
   \<and> uploadedDocuments (handleLogout s) = JArr []
   \<and> page (handleLogout s) ''adminPanel'' = map_option conceal (page s ''adminPanel'')
   \<and> page (handleLogout s) ''mainView'' = map_option (reveal ''block'') (page s ''mainView'')
   \<and> (\<forall>el. page (handleLogout s) ''adminPanel'' = Some el
          \<longrightarrow> hidden el \<and> display el = ''none'')
   \<and> (\<forall>el. page (handleLogout s) ''mainView'' = Some el
          \<longrightarrow> \<not> hidden el \<and> display el = ''block'')"
  by (auto simp: handleLogout_def Let_def showMainView_def page_updateAuthButtons
      conceal_def reveal_def)

theorem logout_clears_session_witness:
  "isLoggedIn logged_in
   \<and> authToken (handleLogout logged_in) = JNull
   \<and> currentUser (handleLogout logged_in) = JNull
   \<and> uploadedDocuments (handleLogout logged_in) = JArr []
   \<and> page (handleLogout logged_in) ''adminPanel'' = Some (conceal blank)
   \<and> page (handleLogout logged_in) ''mainView'' = Some (reveal ''block'' blank)"
proof -
  have before: "isLoggedIn logged_in"
    "page logged_in ''adminPanel'' = Some (reveal ''block'' blank)"
    "page logged_in ''mainView'' = Some (conceal blank)"
    by code_simp+
  have "conceal (reveal ''block'' blank) = conceal blank"
    "reveal ''block'' (conceal blank) = reveal ''block'' blank"
    by (simp_all add: conceal_def reveal_def)
  with before logout_clears_session[of logged_in] show ?thesis
    by (simp only: option.map simp_thms)
qed

section \<open>Questions\<close>

text \<open>
  C6. When the question box holds, after trimming, fewer than three characters (none
  included), \<open>handleQuestion\<close> does nothing but show one error notification: no request
  is issued.
\<close>

theorem short_question_rejected:
  assumes "page s ''questionInput'' = Some qi" and "length (trim (val qi)) < 3"
  shows "requests (handleQuestion out s) = requests s
         \<and> (\<exists>m. handleQuestion out s = showNotification m ''error'' s
                \<and> effects (handleQuestion out s) = effects s @ [Notification m ''error'']
                \<and> notices (handleQuestion out s) = notices s @ [(m, ''error'')])"
  using assms
  by (auto simp: handleQuestion_def Let_def requests_def notices_def)

theorem short_question_rejected_witness:
  "length (trim ''  hi  '') < 3
   \<and> requests (handleQuestion pto_answer short_question) = requests short_question
   \<and> (\<exists>m. notices (handleQuestion pto_answer short_question)
            = notices short_question @ [(m, ''error'')])"
proof -
  have h1: "page short_question ''questionInput'' = Some (blank\<lparr>val := ''  hi  ''\<rparr>)"
    by code_simp
  have h2: "length (trim (val (blank\<lparr>val := ''  hi  ''\<rparr>))) < 3"
    by code_simp
  have h3: "length (trim ''  hi  '') < 3"
    by code_simp
  from short_question_rejected[OF h1 h2, of pto_answer] h3 show ?thesis by blast
qed

lemma displayResult_page:
  "j \<noteq> ''resultsSection'' \<Longrightarrow> j \<noteq> ''resultsContent'' \<Longrightarrow> j \<noteq> ''chatHistory'' \<Longrightarrow>
   page (final (displayResult q r s)) j = page s j"
  by (auto simp: displayResult_def Let_def split: option.splits sum.splits)

lemma handleQuestion_catch_overlay:
  "page (handleQuestion_catch q out s) ''processingOverlay'' = page s ''processingOverlay''"
proof (cases "apiResult out")
  case (Inl e)
  then show ?thesis
    by (simp add: handleQuestion_catch_def handleQuestion_try_def makeAPICall_def)
next
  case (Inr response)
  let ?s1 = "emit (Fetch (apiRequest Ask ''POST'' (JsonBody (JObj [(''question'', JStr q)])) s)) s"
  from displayResult_page[of "''processingOverlay''" q response ?s1]
  have "page (final (displayResult q response ?s1)) ''processingOverlay''
          = page s ''processingOverlay''"
    by simp
  with Inr show ?thesis
    by (cases "displayResult q response ?s1")
       (auto simp: handleQuestion_catch_def handleQuestion_try_def makeAPICall_def)
qed

text \<open>
  C8. A question that passes the local checks shows the processing overlay, and when
  \<open>handleQuestion\<close> is done the overlay is hidden again, whatever the outcome of the
  request and whatever the response holds: the \<^verbatim>\<open>finally\<close> runs on every path.
\<close>

theorem processing_always_hidden:
  assumes "page s ''questionInput'' = Some qi" and "3 \<le> length (trim (val qi))"
  shows "page (handleQuestion out s) ''processingOverlay''
           = map_option conceal (page s ''processingOverlay'')
         \<and> (\<forall>ov. page (handleQuestion out s) ''processingOverlay'' = Some ov
                \<longrightarrow> hidden ov \<and> display ov = ''none'')"
proof -
  have "trim (val qi) \<noteq> []" using assms(2) by auto
  with assms have
    "handleQuestion out s =
       hideProcessing (handleQuestion_catch (trim (val qi)) out
         (addToChatHistory (trim (val qi)) (showProcessing s)))"
    by (simp add: handleQuestion_def Let_def)
  then have "page (handleQuestion out s) ''processingOverlay''
               = map_option conceal (map_option (reveal ''flex'') (page s ''processingOverlay''))"
    by (simp add: hideProcessing_def handleQuestion_catch_overlay addToChatHistory_def
        updateChatHistoryDisplay_def showProcessing_def Let_def)
  then show ?thesis
    by (cases "page s ''processingOverlay''") (auto simp: conceal_def reveal_def)
qed

theorem processing_always_hidden_witness:
  "3 \<le> length (trim ''What is our PTO policy?'')
   \<and> page (handleQuestion pto_answer pto_question) ''processingOverlay'' = Some (conceal blank)
   \<and> page (handleQuestion Rejected pto_question) ''processingOverlay'' = Some (conceal blank)"
proof -
  have h1: "page pto_question ''questionInput''
              = Some (blank\<lparr>val := ''What is our PTO policy?''\<rparr>)"
    by code_simp
  have h2: "3 \<le> length (trim (val (blank\<lparr>val := ''What is our PTO policy?''\<rparr>)))"
    by code_simp
  have h3: "3 \<le> length (trim ''What is our PTO policy?'')"
    by code_simp
  have ov: "page pto_question ''processingOverlay'' = Some (conceal blank)"
    by code_simp
  have "conceal (conceal blank) = conceal blank"
    by (simp add: conceal_def)
  with processing_always_hidden[OF h1 h2, of pto_answer]
       processing_always_hidden[OF h1 h2, of Rejected] h3 ov
  show ?thesis by (simp only: option.map simp_thms)
qed


section \<open>Document operations\<close>

text \<open>
  C5 (as amended). While the controller is not logged in, upload, delete and download do
  nothing but show the notice \<^verbatim>\<open>Please login first\<close>, so no request is issued and no
  window opened; \<open>loadDocuments\<close> leaves the state as it is: no request, and no notice
  either.
\<close>

theorem login_required:
  assumes "\<not> isLoggedIn s"
  shows "handleFileUpload out docs_out s = showNotification ''Please login first'' ''error'' s
         \<and> deleteDocument i confirmed out docs_out s
             = showNotification ''Please login first'' ''error'' s
         \<and> downloadDocument i s = showNotification ''Please login first'' ''error'' s
         \<and> loadDocuments out s = s
         \<and> effects (showNotification ''Please login first'' ''error'' s)
             = effects s @ [Notification ''Please login first'' ''error'']
         \<and> requests (showNotification ''Please login first'' ''error'' s) = requests s"
  using assms
  by (simp add: handleFileUpload_def deleteDocument_def downloadDocument_def
      loadDocuments_def requests_def)

theorem login_required_witness:
  "\<not> isLoggedIn (HelperGPT full_page)
   \<and> handleFileUpload good_login no_documents (HelperGPT full_page)
       = showNotification ''Please login first'' ''error'' (HelperGPT full_page)
   \<and> deleteDocument (JNum 7) True good_login no_documents (HelperGPT full_page)
       = showNotification ''Please login first'' ''error'' (HelperGPT full_page)
   \<and> downloadDocument (JNum 7) (HelperGPT full_page)
       = showNotification ''Please login first'' ''error'' (HelperGPT full_page)
   \<and> loadDocuments good_login (HelperGPT full_page) = HelperGPT full_page"
proof -
  have h: "\<not> isLoggedIn (HelperGPT full_page)"
    by simp
  from login_required[OF h, of good_login no_documents "JNum 7" True] h
  show ?thesis by blast
qed

text \<open>
  C5 as stated fails for list/refresh: on a fresh page, not logged in, \<open>loadDocuments\<close>
  issues no request but shows no notice either.
\<close>

theorem loadDocuments_silent_counterexample:
  "\<not> isLoggedIn (HelperGPT full_page)
   \<and> notices (loadDocuments no_documents (HelperGPT full_page)) = []
   \<and> requests (loadDocuments no_documents (HelperGPT full_page)) = []"
  by (simp add: loadDocuments_def notices_def requests_def)

text \<open>
  C9. For a logged-in user and a valid id, the first thing \<open>deleteDocument\<close> does is the
  \<^verbatim>\<open>confirm\<close> dialog. When the user cancels it the dialog is all that happened: no
  request is issued and the document list is unchanged.
\<close>

theorem delete_asks_first:
  assumes "isLoggedIn s" and "\<not> invalidId i"
  shows "(\<exists>rest. effects (deleteDocument i confirmed out docs_out s)
            = effects s @ Confirm ''Are you sure you want to delete this document?'' # rest)
         \<and> deleteDocument i False out docs_out s
             = emit (Confirm ''Are you sure you want to delete this document?'') s
         \<and> requests (deleteDocument i False out docs_out s) = requests s
         \<and> uploadedDocuments (deleteDocument i False out docs_out s) = uploadedDocuments s"
proof -
  let ?q = "Confirm ''Are you sure you want to delete this document?''"
  let ?s1 = "emit ?q s"
  have cancel: "deleteDocument i False out docs_out s = ?s1"
    using assms by (simp add: deleteDocument_def Let_def)
  have first: "\<exists>rest. effects (deleteDocument i confirmed out docs_out s) = effects s @ ?q # rest"
  proof (cases confirmed)
    case False
    with cancel show ?thesis by simp
  next
    case True
    show ?thesis
    proof (cases "apiResult out")
      case (Inl e)
      with True assms show ?thesis
        by (simp add: deleteDocument_def Let_def makeAPICall_def)
    next
      case (Inr response)
      let ?s3 = "showNotification ''Document deleted successfully'' ''success''
                   (emit (Fetch (apiRequest (DocumentById i) ''DELETE'' NoBody ?s1)) ?s1)"
      from loadDocuments_frame[of docs_out ?s3]
      obtain rest where "effects (loadDocuments docs_out ?s3) = effects ?s3 @ rest"
        by blast
      with True Inr assms show ?thesis
        by (simp add: deleteDocument_def Let_def makeAPICall_def)
    qed
  qed
  from first cancel show ?thesis by (simp add: requests_def)
qed

theorem delete_asks_first_witness:
  "isLoggedIn logged_in \<and> \<not> invalidId (JNum 7)
   \<and> (\<exists>rest. effects (deleteDocument (JNum 7) True (Responded True (Some JNull)) no_documents logged_in)
         = effects logged_in @ Confirm ''Are you sure you want to delete this document?'' # rest)
   \<and> requests (deleteDocument (JNum 7) False (Responded True (Some JNull)) no_documents logged_in)
       = requests logged_in
   \<and> uploadedDocuments
        (deleteDocument (JNum 7) False (Responded True (Some JNull)) no_documents logged_in)
       = uploadedDocuments logged_in"
proof -
  have h1: "isLoggedIn logged_in"
    by code_simp
  have h2: "\<not> invalidId (JNum 7)"
    by (simp add: invalidId_def)
  from delete_asks_first[OF h1 h2, of _ "Responded True (Some JNull)" no_documents] h1 h2
  show ?thesis by blast
qed


section \<open>The session\<close>

lemma session_frame [simp]:
  "session (with_element i f s) = session s"
  "session (emit e s) = session s"
  "session (showNotification m k s) = session s"
  "session (updateAuthButtons s) = session s"
  by (simp_all add: session_def)

lemma session_loadDocuments [simp]: "session (loadDocuments out s) = session s"
  using loadDocuments_frame[of out s] by (simp add: session_def)

lemma session_hideLoginModal [simp]: "session (hideLoginModal s) = session s"
  by (simp add: hideLoginModal_def Let_def split: option.splits)

lemma session_showAdminPanel [simp]: "session (final (showAdminPanel s)) = session s"
  using renderDocuments_frame[of "updateAuthButtons
      (with_element ''adminPanel'' (reveal ''block'') (with_element ''mainView'' conceal s))"]
  by (simp add: showAdminPanel_def Let_def session_def)

lemma truthy_optProp: "truthy (optProp v k) \<Longrightarrow> \<not> nullish v"
  by (auto simp: optProp_def)

lemma apiResult_Inr: "apiResult out = Inr r \<longleftrightarrow> out = Responded True (Some r)"
  by (auto simp: apiResult_def split: fetch_outcome.splits option.splits)

lemma session_handleLogin_try:
  "session (final (handleLogin_try username password out docs_out s)) =
     (case apiResult out of
        Inl e \<Rightarrow> session s
      | Inr response \<Rightarrow>
          if truthy (optProp response ''access_token'')
          then (True, field response ''user'', field response ''access_token'')
          else session s)"
proof (cases "apiResult out")
  case (Inl e)
  then show ?thesis by (simp add: handleLogin_try_def Let_def makeAPICall_def)
next
  case (Inr response)
  show ?thesis
  proof (cases "truthy (optProp response ''access_token'')")
    case False
    with Inr show ?thesis by (simp add: handleLogin_try_def Let_def makeAPICall_def)
  next
    case True
    then have nn: "\<not> nullish response" by (rule truthy_optProp)
    let ?s2 = "emit (Fetch (apiRequest AuthLogin ''POST''
                 (JsonBody (JObj [(''username'', JStr username), (''password'', JStr password)]))
                 (showNotification ''Logging in...'' ''info'' s)))
                 (showNotification ''Logging in...'' ''info'' s)"
    let ?s4 = "hideLoginModal (?s2\<lparr>authToken := field response ''access_token'',
                 currentUser := field response ''user'', isLoggedIn := True\<rparr>)"
    have "session (final (showAdminPanel ?s4)) =
            (True, field response ''user'', field response ''access_token'')"
      by (simp add: session_def[of "_\<lparr>authToken := _, currentUser := _, isLoggedIn := _\<rparr>"])
    with Inr True nn show ?thesis
      by (cases "showAdminPanel ?s4")
         (auto simp: handleLogin_try_def Let_def makeAPICall_def getProp_def)
  qed
qed

lemma session_handleLogin:
  "session (handleLogin out docs_out s) = session s
   \<or> (\<exists>response. apiResult out = Inr response \<and> truthy (optProp response ''access_token'')
        \<and> session (handleLogin out docs_out s)
            = (True, field response ''user'', field response ''access_token''))"
proof (cases "page s ''username''")
  case None
  then show ?thesis by (simp add: handleLogin_def)
next
  case u: (Some usernameEl)
  show ?thesis
  proof (cases "page s ''password''")
    case None
    with u show ?thesis by (simp add: handleLogin_def)
  next
    case p: (Some passwordEl)
    show ?thesis
    proof (cases "trim (val usernameEl) = [] \<or> trim (val passwordEl) = []")
      case True
      with u p show ?thesis by (auto simp: handleLogin_def Let_def)
    next
      case False
      let ?r = "handleLogin_try (trim (val usernameEl)) (trim (val passwordEl)) out docs_out s"
      have "session (handleLogin out docs_out s) = session (final ?r)"
        using u p False by (cases ?r) (auto simp: handleLogin_def Let_def)
      then show ?thesis
        using session_handleLogin_try
                [of "trim (val usernameEl)" "trim (val passwordEl)" out docs_out s]
        by (auto split: sum.splits if_splits)
    qed
  qed
qed

lemma session_ok_step:
  assumes "session_ok w s" and "w \<longrightarrow> carries_user op"
  shows "session_ok w (session_step op s)"
proof (cases op)
  case Logout
  then show ?thesis by (simp add: session_ok_def handleLogout_def showMainView_def Let_def)
next
  case (Login username password out docs_out)
  let ?s = "with_element ''password'' (\<lambda>el. el\<lparr>val := password\<rparr>)
              (with_element ''username'' (\<lambda>el. el\<lparr>val := username\<rparr>) s)"
  have same: "session ?s = session s" by simp
  from session_handleLogin[of out docs_out ?s]
  show ?thesis
  proof
    assume "session (handleLogin out docs_out ?s) = session ?s"
    with same assms(1) Login show ?thesis by (simp add: session_ok_def session_def)
  next
    assume "\<exists>response. apiResult out = Inr response \<and> truthy (optProp response ''access_token'')
        \<and> session (handleLogin out docs_out ?s)
            = (True, field response ''user'', field response ''access_token'')"
    then obtain response where r: "out = Responded True (Some response)"
      and t: "truthy (optProp response ''access_token'')"
      and s': "session (handleLogin out docs_out ?s)
                = (True, field response ''user'', field response ''access_token'')"
      by (auto simp: apiResult_Inr)
    from t have "truthy (field response ''access_token'')"
      by (auto simp: optProp_def split: if_splits)
    moreover from assms(2) Login r t have "w \<longrightarrow> \<not> nullish (field response ''user'')"
      by simp
    ultimately show ?thesis using s' Login by (simp add: session_ok_def session_def)
  qed
qed

lemma session_ok_run:
  "session_ok w s \<Longrightarrow> (w \<longrightarrow> (\<forall>op \<in> set ops. carries_user op)) \<Longrightarrow>
   session_ok w (session_run ops s)"
  unfolding session_run_def
  by (induction ops arbitrary: s) (auto intro: session_ok_step)

text \<open>
  C2 (as amended). In every state reached from the constructor by logins and logouts,
  a logged-in controller holds a token that is truthy, hence neither \<^verbatim>\<open>null\<close> nor
  \<^verbatim>\<open>undefined\<close>; it holds a user that is neither \<^verbatim>\<open>null\<close> nor \<^verbatim>\<open>undefined\<close> provided
  every login response that carried a token carried such a user.
\<close>

theorem session_all_or_nothing:
  "(isLoggedIn (session_run ops (HelperGPT pg))
      \<longrightarrow> truthy (authToken (session_run ops (HelperGPT pg)))
          \<and> \<not> nullish (authToken (session_run ops (HelperGPT pg))))
   \<and> ((\<forall>op \<in> set ops. carries_user op) \<longrightarrow> isLoggedIn (session_run ops (HelperGPT pg))
      \<longrightarrow> \<not> nullish (currentUser (session_run ops (HelperGPT pg))))"
proof -
  have start: "session_ok w (HelperGPT pg)" for w by (simp add: session_ok_def)
  have a: "session_ok False (session_run ops (HelperGPT pg))"
    using start by (rule session_ok_run) simp
  have b: "session_ok True (session_run ops (HelperGPT pg))" if "\<forall>op \<in> set ops. carries_user op"
    using that by (intro session_ok_run start) simp
  from a b show ?thesis by (auto simp: session_ok_def nullish_def)
qed

theorem session_all_or_nothing_witness:
  "carries_user (Login ''admin'' ''secret'' good_login no_documents)
   \<and> isLoggedIn logged_in
   \<and> \<not> nullish (authToken logged_in) \<and> \<not> nullish (currentUser logged_in)"
proof -
  have h1: "carries_user (Login ''admin'' ''secret'' good_login no_documents)"
    by code_simp
  then have h1': "\<forall>op \<in> set [Login ''admin'' ''secret'' good_login no_documents]. carries_user op"
    by (simp only: list.set ball_simps simp_thms)
  have h2: "isLoggedIn (session_run [Login ''admin'' ''secret'' good_login no_documents]
                          (HelperGPT full_page))"
    by code_simp
  from session_all_or_nothing[of "[Login ''admin'' ''secret'' good_login no_documents]" full_page]
       h1 h1' h2
  show ?thesis unfolding logged_in_def by blast
qed

text \<open>
  C2 as stated fails: a login answered with a token and \<^verbatim>\<open>"user": null\<close> leaves the
  controller logged in with \<^verbatim>\<open>currentUser\<close> \<^verbatim>\<open>null\<close>.
\<close>

theorem userless_login_counterexample:
  "isLoggedIn (session_run [Login ''admin'' ''secret'' userless_login no_documents]
                 (HelperGPT full_page))
   \<and> currentUser (session_run [Login ''admin'' ''secret'' userless_login no_documents]
                    (HelperGPT full_page)) = JNull"
  by code_simp

section \<open>A login that fails\<close>

lemma handleLogin_call_fails:
  assumes "page s ''username'' = Some usernameEl" and "page s ''password'' = Some passwordEl"
    and "trim (val usernameEl) \<noteq> []" and "trim (val passwordEl) \<noteq> []"
    and "apiResult out = Inl e"
  shows "notices (handleLogin out docs_out s)
           = notices s @ [(''Logging in...'', ''info''),
                          (''Login failed. Please check your credentials.'', ''error'')]
         \<and> session (handleLogin out docs_out s) = session s
         \<and> page (handleLogin out docs_out s) = page s"
  using assms
  by (simp add: handleLogin_def handleLogin_try_def makeAPICall_def Let_def notices_def)

lemma handleLogin_no_token:
  assumes "page s ''username'' = Some usernameEl" and "page s ''password'' = Some passwordEl"
    and "trim (val usernameEl) \<noteq> []" and "trim (val passwordEl) \<noteq> []"
    and "apiResult out = Inr response" and "\<not> truthy (optProp response ''access_token'')"
  shows "notices (handleLogin out docs_out s) = notices s @ [(''Logging in...'', ''info'')]
         \<and> session (handleLogin out docs_out s) = session s
         \<and> page (handleLogin out docs_out s) = page s"
  using assms
  by (simp add: handleLogin_def handleLogin_try_def makeAPICall_def Let_def notices_def)

text \<open>
  C4. With the login modal open and \<^verbatim>\<open>admin\<close>/\<^verbatim>\<open>wrong\<close> typed in, a 401 from the backend
  ends in the failure notification, the session untouched and the modal still open. A
  200 whose body has no \<^verbatim>\<open>access_token\<close> leaves session and modal alike, but the only
  notification is \<^verbatim>\<open>Logging in...\<close>: nothing tells the user that the login failed.
\<close>

theorem tokenless_login_unnoticed:
  "notices (session_step (Login ''admin'' ''wrong'' unauthorized no_documents) login_open)
     = [(''Logging in...'', ''info''),
        (''Login failed. Please check your credentials.'', ''error'')]
   \<and> notices (session_step (Login ''admin'' ''wrong'' tokenless_login no_documents) login_open)
     = [(''Logging in...'', ''info'')]
   \<and> session (session_step (Login ''admin'' ''wrong'' tokenless_login no_documents) login_open)
     = (False, JNull, JNull)
   \<and> page (session_step (Login ''admin'' ''wrong'' tokenless_login no_documents) login_open)
        ''loginModal'' = Some (reveal ''flex'' (conceal blank))"
  by code_simp

section \<open>Uploading a selection with a rejected file\<close>

text \<open>
  C1. A logged-in user picks team \<^verbatim>\<open>Engineering\<close> and project \<^verbatim>\<open>Cloud Team\<close> and selects
  \<^verbatim>\<open>setup.exe\<close> and \<^verbatim>\<open>report.pdf\<close> in the file input. The selection produces the one
  rejection notice, for \<^verbatim>\<open>setup.exe\<close>, and lists \<^verbatim>\<open>report.pdf\<close> alone; the upload
  request that follows carries both files in its \<^verbatim>\<open>files\<close> parts.
\<close>

theorem upload_sends_rejected_file:
  "notices (fileInput_change [setup_exe, report_pdf] ready_to_upload)
     = notices ready_to_upload @ [(unsupported setup_exe, ''error'')]
   \<and> map_option children
        (page (fileInput_change [setup_exe, report_pdf] ready_to_upload) ''fileList'')
     = Some [FileItem report_pdf]
   \<and> map body (filter (\<lambda>r. endpoint r = DocumentsUpload) (requests upload_attempt))
     = [FormBody [(''team'', Field ''Engineering''), (''project'', Field ''Cloud Team''),
                  (''files'', FilePart setup_exe), (''files'', FilePart report_pdf)]]"
  by code_simp


end
